theory Spec2Isabelle
  imports Main
begin

section \<open>Data model of \<^verbatim>\<open>src/express.ts\<close>\<close>

text \<open>
  JavaScript values, as far as the library handles them: the body of a request is
  \<^verbatim>\<open>any\<close>, the argument of \<^verbatim>\<open>Response.json\<close> is a
  \<^verbatim>\<open>Record<string, any>\<close>. Strings are lists of code units; numbers are
  restricted to the integers. An object is the list of its own properties in insertion
  order.
\<close>

datatype jsval =
    Undefined
  | Null
  | Bool bool
  | Num int
  | Str string
  | Arr "jsval list"
  | Obj "(string \<times> jsval) list"

text \<open>
  The builtins of the JavaScript runtime that the library calls. They are not code of the
  library, so every function below takes them as a parameter:
  \<^verbatim>\<open>JSON.stringify\<close>, \<^verbatim>\<open>JSON.parse\<close> (\<open>None\<close> when it throws
  its \<^verbatim>\<open>SyntaxError\<close>), \<^verbatim>\<open>Buffer.from(s, "base64").toString("utf-8")\<close>
  and \<^verbatim>\<open>encodeURIComponent\<close>.
\<close>

record platform =
  JSON_stringify :: "jsval \<Rightarrow> string"
  JSON_parse :: "string \<Rightarrow> jsval option"
  base64_to_utf8 :: "string \<Rightarrow> string"
  encodeURIComponent :: "string \<Rightarrow> string"

subsection \<open>Request\<close>

record request =
  req_body :: jsval
  headers :: "string \<rightharpoonup> string"
  "method" :: string
  path :: string

text \<open>\<^verbatim>\<open>s.startsWith(p)\<close>: the first \<open>p.length\<close> code units of \<open>s\<close> are \<open>p\<close>.\<close>

definition startsWith :: "string \<Rightarrow> string \<Rightarrow> bool" where
  "startsWith s p = (take (length p) s = p)"

text \<open>\<^verbatim>\<open>s.substring(n)\<close> for \<open>n \<ge> 0\<close>: the empty string when \<open>n\<close> exceeds the length.\<close>

definition substring :: "string \<Rightarrow> nat \<Rightarrow> string" where
  "substring s n = drop n s"

definition removePathPrefix :: "string \<Rightarrow> request \<Rightarrow> request" where
  "removePathPrefix prefix r = r\<lparr>path := substring (path r) (length prefix)\<rparr>"

definition addPathPrefix :: "string \<Rightarrow> request \<Rightarrow> request" where
  "addPathPrefix prefix r = r\<lparr>path := prefix @ path r\<rparr>"

subsection \<open>Response and the promise it resolves\<close>

record response =
  statusCode :: int
  body :: string
  contentType :: string

text \<open>The \<^verbatim>\<open>APIGatewayProxyResult\<close> that \<^verbatim>\<open>resToResponse\<close> builds.\<close>

record proxy_result =
  result_statusCode :: int
  result_body :: string
  result_headers :: "(string \<times> string) list"

text \<open>
  What one invocation mutates: the request and the response object that every step
  receives, and the promise of \<^verbatim>\<open>getResponse\<close> that the response's resolver
  settles. \<open>promise\<close> is \<open>None\<close> while the promise is pending. \<open>resolver_calls\<close>
  is a ghost counter: how often the resolver has been invoked.
\<close>

record world =
  req :: request
  res :: response
  promise :: "proxy_result option"
  resolver_calls :: nat

definition new_Response :: response where
  "new_Response = \<lparr>statusCode = 200, body = [], contentType = ''text/html''\<rparr>"

definition resToResponse :: "response \<Rightarrow> proxy_result" where
  "resToResponse r =
     \<lparr>result_statusCode = statusCode r, result_body = body r,
      result_headers = [(''Content-Type'', contentType r)]\<rparr>"

text \<open>
  \<^verbatim>\<open>resolve\<close> of a JavaScript promise: the first call settles it, later calls are
  ignored.
\<close>

definition resolve :: "proxy_result \<Rightarrow> proxy_result option \<Rightarrow> proxy_result option" where
  "resolve v p = (case p of None \<Rightarrow> Some v | Some v0 \<Rightarrow> Some v0)"

text \<open>
  \<^verbatim>\<open>finish()\<close> calls the resolver that \<^verbatim>\<open>getResponse\<close> installed:
  \<^verbatim>\<open>(res) => resolve(this.resToResponse(res))\<close>.
\<close>

definition finish :: "world \<Rightarrow> world" where
  "finish w =
     w\<lparr>promise := resolve (resToResponse (res w)) (promise w),
       resolver_calls := Suc (resolver_calls w)\<rparr>"

text \<open>
  The mutators return \<^verbatim>\<open>this\<close>: the response of the world they return is the
  receiver after the call, so \<^verbatim>\<open>res.status(c).json(d)\<close> is the composition
  \<open>json js d (status c w)\<close>.
\<close>

definition status :: "int \<Rightarrow> world \<Rightarrow> world" where
  "status code w = w\<lparr>res := (res w)\<lparr>statusCode := code\<rparr>\<rparr>"

definition json :: "platform \<Rightarrow> jsval \<Rightarrow> world \<Rightarrow> world" where
  "json js data w =
     finish (w\<lparr>res := (res w)\<lparr>body := JSON_stringify js data,
                             contentType := ''application/json''\<rparr>\<rparr>)"

definition send :: "string \<Rightarrow> world \<Rightarrow> world" where
  "send data w = finish (w\<lparr>res := (res w)\<lparr>body := data\<rparr>\<rparr>)"

subsection \<open>Routes, handlers and middleware\<close>

text \<open>
  A handler and a middleware are user code run on the request and the response. A
  middleware also receives \<^verbatim>\<open>next\<close>; it may call it any number of times, on the
  world as it is at the moment of the call. A call of a function value can throw
  (\<open>Threw\<close>, with the world as the throw leaves it); for an \<^verbatim>\<open>async\<close>
  method, \<open>Returned\<close> is a fulfilled and \<open>Threw\<close> a rejected promise. The chain
  is run with fuel:
  \<open>None\<close> is a call that has not returned when the fuel is used up. Faults of user
  handlers and the suspension of an \<^verbatim>\<open>async\<close> handler at an
  \<^verbatim>\<open>await\<close> are not modelled: a handler is a total function on the world.
\<close>

datatype error = TypeError

datatype outcome = Returned world | Threw error world

type_synonym handler = "world \<Rightarrow> world"

type_synonym middleware = "world \<Rightarrow> (world \<Rightarrow> outcome option) \<Rightarrow> outcome option"

record route =
  route_path :: string
  handler :: handler

text \<open>
  The elements of \<^verbatim>\<open>Router.middlewares\<close>: the initial element, which calls
  \<^verbatim>\<open>this.handleRequest\<close>, and the closure \<^verbatim>\<open>fun\<close> that
  \<^verbatim>\<open>use\<close> creates, with the \<^verbatim>\<open>idx\<close> and the
  \<^verbatim>\<open>middleware\<close> it captures.
\<close>

datatype step = Terminator | Wrapped int middleware

text \<open>
  \<^verbatim>\<open>routes\<close> is a plain object used as a dictionary from method names to route
  arrays: \<open>routes r\<close> is the map of its own properties. A property read
  \<^verbatim>\<open>this.routes[m]\<close> that finds no own property continues in
  \<^verbatim>\<open>Object.prototype\<close>, whose property names are listed below; the values found
  there are functions, and \<^verbatim>\<open>Object.prototype\<close> itself for
  \<^verbatim>\<open>__proto__\<close>: none is \<^verbatim>\<open>undefined\<close> and none has a
  \<^verbatim>\<open>find\<close> method.
\<close>

record router =
  routes :: "string \<rightharpoonup> route list"
  middlewares :: "step list"

definition Object_prototype_properties :: "string list" where
  "Object_prototype_properties =
     [''constructor'', ''toString'', ''toLocaleString'', ''valueOf'', ''hasOwnProperty'',
      ''isPrototypeOf'', ''propertyIsEnumerable'', ''__proto__'', ''__defineGetter__'',
      ''__defineSetter__'', ''__lookupGetter__'', ''__lookupSetter__'']"

definition new_Router :: router where
  "new_Router = \<lparr>routes = Map.empty, middlewares = [Terminator]\<rparr>"

text \<open>
  The shared body of \<^verbatim>\<open>post\<close>, \<^verbatim>\<open>get\<close>, \<^verbatim>\<open>put\<close>,
  \<^verbatim>\<open>delete\<close> and \<^verbatim>\<open>all\<close>: create the bucket when it is missing, then
  push the route. The five callers pass the literals \<^verbatim>\<open>POST\<close>, \<^verbatim>\<open>GET\<close>,
  \<^verbatim>\<open>PUT\<close>, \<^verbatim>\<open>DELETE\<close> and \<^verbatim>\<open>ALL\<close>, none of them an inherited
  name.
\<close>

definition push_route :: "string \<Rightarrow> string \<Rightarrow> handler \<Rightarrow> router \<Rightarrow> router" where
  "push_route m p h r =
     (let bucket = (case routes r m of None \<Rightarrow> [] | Some rs \<Rightarrow> rs)
      in r\<lparr>routes := (routes r)(m \<mapsto> bucket @ [\<lparr>route_path = p, handler = h\<rparr>])\<rparr>)"

definition post :: "string \<Rightarrow> handler \<Rightarrow> router \<Rightarrow> router" where
  "post p h r = push_route ''POST'' p h r"

definition get :: "string \<Rightarrow> handler \<Rightarrow> router \<Rightarrow> router" where
  "get p h r = push_route ''GET'' p h r"

definition put :: "string \<Rightarrow> handler \<Rightarrow> router \<Rightarrow> router" where
  "put p h r = push_route ''PUT'' p h r"

definition delete :: "string \<Rightarrow> handler \<Rightarrow> router \<Rightarrow> router" where
  "delete p h r = push_route ''DELETE'' p h r"

definition all_methods :: "string \<Rightarrow> handler \<Rightarrow> router \<Rightarrow> router" where
  "all_methods p h r = push_route ''ALL'' p h r"

text \<open>
  \<^verbatim>\<open>this.routes[method]?.find(...)\<close>: the first route of the bucket with the path;
  \<^verbatim>\<open>undefined\<close> (\<open>Inr None\<close>) when there is none or when the read gives
  \<^verbatim>\<open>undefined\<close>. For an inherited name the read gives a value that is not
  \<^verbatim>\<open>undefined\<close>, \<^verbatim>\<open>?.\<close> does not stop, and calling its missing
  \<^verbatim>\<open>find\<close> throws a \<^verbatim>\<open>TypeError\<close>.
\<close>

definition findRoute :: "router \<Rightarrow> string \<Rightarrow> string \<Rightarrow> error + route option" where
  "findRoute r m p =
     (case routes r m of
        Some rs \<Rightarrow> Inr (find (\<lambda>rt. route_path rt = p) rs)
      | None \<Rightarrow> if m \<in> set Object_prototype_properties then Inl TypeError else Inr None)"

definition executeHandler :: "route \<Rightarrow> world \<Rightarrow> world" where
  "executeHandler rt w = handler rt w"

definition notFound :: "platform \<Rightarrow> world \<Rightarrow> world" where
  "notFound js w =
     (let h = (\<lambda>w'. json js (Obj [(''message'', Str ''not found'')]) (status 404 w'));
          rt = \<lparr>route_path = path (req w), handler = h\<rparr>
      in executeHandler rt w)"

definition getRoute :: "router \<Rightarrow> request \<Rightarrow> error + route option" where
  "getRoute r rq =
     (case findRoute r (method rq) (path rq) of
        Inl e \<Rightarrow> Inl e
      | Inr (Some rt) \<Rightarrow> Inr (Some rt)
      | Inr None \<Rightarrow>
          (case findRoute r ''ALL'' (path rq) of
             Inl e \<Rightarrow> Inl e
           | Inr (Some allRoute) \<Rightarrow> Inr (Some allRoute)
           | Inr None \<Rightarrow> Inr None))"

text \<open>
  \<^verbatim>\<open>handleRequest\<close> is \<^verbatim>\<open>async\<close>: a throw of \<^verbatim>\<open>getRoute\<close> rejects
  the promise it returns. Its two callers call it as a statement: they neither await
  nor catch the promise, and go on with the world as the call leaves it
  (\<open>unawaited\<close>).
\<close>

definition handleRequest :: "platform \<Rightarrow> router \<Rightarrow> world \<Rightarrow> outcome" where
  "handleRequest js r w =
     (case getRoute r (req w) of
        Inl e \<Rightarrow> Threw e w
      | Inr (Some rt) \<Rightarrow> Returned (executeHandler rt w)
      | Inr None \<Rightarrow> Returned (notFound js w))"

fun unawaited :: "outcome \<Rightarrow> world" where
  "unawaited (Returned w) = w"
| "unawaited (Threw e w) = w"

subsection \<open>The middleware array\<close>

text \<open>\<^verbatim>\<open>xs[k]\<close>: \<^verbatim>\<open>undefined\<close> (\<open>None\<close>) outside the array.\<close>

definition array_get :: "'a list \<Rightarrow> int \<Rightarrow> 'a option" where
  "array_get xs k = (if 0 \<le> k \<and> k < int (length xs) then Some (xs ! nat k) else None)"

text \<open>
  \<^verbatim>\<open>xs.splice(start, 0, x)\<close>: a negative \<open>start\<close> counts from the end, and the
  position is clamped to the array.
\<close>

definition splice_insert :: "int \<Rightarrow> 'a \<Rightarrow> 'a list \<Rightarrow> 'a list" where
  "splice_insert start x xs =
     (let n = int (length xs);
          s = (if start < 0 then max (n + start) 0 else min start n)
      in take (nat s) xs @ [x] @ drop (nat s) xs)"

text \<open>
  \<^verbatim>\<open>this.middlewares[k](req, res)\<close>. Calling \<^verbatim>\<open>undefined\<close> throws a
  \<^verbatim>\<open>TypeError\<close>. The closure of \<^verbatim>\<open>use\<close> runs the user's middleware with
  \<^verbatim>\<open>next = () => this.middlewares[idx + 1](req, res)\<close>, looked up when
  \<^verbatim>\<open>next\<close> is called.
\<close>

fun call_middleware :: "nat \<Rightarrow> platform \<Rightarrow> router \<Rightarrow> int \<Rightarrow> world \<Rightarrow> outcome option" where
  "call_middleware 0 js r k w = None"
| "call_middleware (Suc fuel) js r k w =
     (case array_get (middlewares r) k of
        None \<Rightarrow> Some (Threw TypeError w)
      | Some Terminator \<Rightarrow> Some (Returned (unawaited (handleRequest js r w)))
      | Some (Wrapped idx m) \<Rightarrow> m w (\<lambda>w'. call_middleware fuel js r (idx + 1) w'))"

definition use :: "middleware \<Rightarrow> router \<Rightarrow> router" where
  "use m r =
     (let idx = int (length (middlewares r)) - 1
      in r\<lparr>middlewares := splice_insert idx (Wrapped idx m) (middlewares r)\<rparr>)"

text \<open>
  The middleware that \<^verbatim>\<open>useRouter(path, router)\<close> registers. A throw of
  \<^verbatim>\<open>router.getRoute(req)\<close> leaves it with the path stripped. On a match it calls
  \<^verbatim>\<open>router.handleRequest(req, res)\<close>.
\<close>

definition mount :: "platform \<Rightarrow> string \<Rightarrow> router \<Rightarrow> middleware" where
  "mount js p child w next =
     (if \<not> startsWith (path (req w)) p then next w
      else
        let w1 = w\<lparr>req := removePathPrefix p (req w)\<rparr>
        in case getRoute child (req w1) of
             Inl e \<Rightarrow> Some (Threw e w1)
           | Inr None \<Rightarrow> next (w1\<lparr>req := addPathPrefix p (req w1)\<rparr>)
           | Inr (Some rt) \<Rightarrow> Some (Returned (unawaited (handleRequest js child w1))))"

definition useRouter :: "platform \<Rightarrow> string \<Rightarrow> router \<Rightarrow> router \<Rightarrow> router" where
  "useRouter js p child r = use (mount js p child) r"

subsection \<open>Dispatch entry points\<close>

text \<open>
  The promise that \<^verbatim>\<open>getResponse\<close> returns, once the synchronous run of the
  chain is over. An exception that leaves the executor rejects the promise unless it is
  settled already.
\<close>

datatype promise_state = Pending | Fulfilled proxy_result | Rejected error

definition new_world :: "request \<Rightarrow> world" where
  "new_world rq = \<lparr>req = rq, res = new_Response, promise = None, resolver_calls = 0\<rparr>"

definition getResponse :: "nat \<Rightarrow> platform \<Rightarrow> router \<Rightarrow> request \<Rightarrow> promise_state option" where
  "getResponse fuel js r rq =
     (case call_middleware fuel js r 0 (new_world rq) of
        None \<Rightarrow> None
      | Some (Returned w) \<Rightarrow>
          Some (case promise w of None \<Rightarrow> Pending | Some v \<Rightarrow> Fulfilled v)
      | Some (Threw e w) \<Rightarrow>
          Some (case promise w of None \<Rightarrow> Rejected e | Some v \<Rightarrow> Fulfilled v))"

subsection \<open>Platform adapter\<close>

record event =
  ev_body :: "string option"
  isBase64Encoded :: bool
  ev_headers :: "string \<rightharpoonup> string"
  httpMethod :: string
  ev_path :: string

text \<open>
  \<^verbatim>\<open>{ ...context, key: v }\<close>: the property keeps its place when the object has
  it, and is added last otherwise.
\<close>

fun set_prop :: "string \<Rightarrow> jsval \<Rightarrow> (string \<times> jsval) list \<Rightarrow> (string \<times> jsval) list" where
  "set_prop k v [] = [(k, v)]"
| "set_prop k v ((k', v') # ps) =
     (if k' = k then (k, v) # ps else (k', v') # set_prop k v ps)"

definition parseRequest :: "platform \<Rightarrow> event \<Rightarrow> (string \<times> jsval) list \<Rightarrow> request" where
  "parseRequest js ev ctx =
     (let raw = (case ev_body ev of
                   None \<Rightarrow> None
                 | Some b \<Rightarrow>
                     if isBase64Encoded ev \<and> b \<noteq> [] then Some (base64_to_utf8 js b)
                     else Some b);
          text = (case raw of None \<Rightarrow> [] | Some t \<Rightarrow> t);
          parsed = (case JSON_parse js text of
                      Some v \<Rightarrow> v
                    | None \<Rightarrow> (case raw of None \<Rightarrow> Null | Some t \<Rightarrow> Str t));
          hdrs = (ev_headers ev)(''x-apigateway-context'' \<mapsto>
                   encodeURIComponent js
                     (JSON_stringify js
                        (Obj (set_prop ''getRemainingTimeInMillis'' Undefined ctx))))
      in \<lparr>req_body = parsed, headers = hdrs, method = httpMethod ev, path = ev_path ev\<rparr>)"

definition getLambdaResponse ::
  "nat \<Rightarrow> platform \<Rightarrow> router \<Rightarrow> event \<Rightarrow> (string \<times> jsval) list \<Rightarrow> promise_state option" where
  "getLambdaResponse fuel js r ev ctx = getResponse fuel js r (parseRequest js ev ctx)"

section \<open>Composing a router\<close>

text \<open>
  The calls of the public interface that build a router. A router is composed before it
  serves requests: \<open>build\<close> applies a sequence of calls to \<^verbatim>\<open>new Router()\<close>. A
  child router is mounted as it is when the request arrives.
\<close>

datatype call =
    Post string handler
  | Get string handler
  | Put string handler
  | Delete string handler
  | All string handler
  | Use middleware
  | UseRouter string router

fun apply_call :: "platform \<Rightarrow> router \<Rightarrow> call \<Rightarrow> router" where
  "apply_call js r (Post p h) = post p h r"
| "apply_call js r (Get p h) = get p h r"
| "apply_call js r (Put p h) = put p h r"
| "apply_call js r (Delete p h) = delete p h r"
| "apply_call js r (All p h) = all_methods p h r"
| "apply_call js r (Use m) = use m r"
| "apply_call js r (UseRouter p child) = useRouter js p child r"

definition build :: "platform \<Rightarrow> call list \<Rightarrow> router" where
  "build js cs = foldl (apply_call js) new_Router cs"

section \<open>Reference functions of the specification\<close>

text \<open>
  The route table as the specification describes it: \<open>register(method, path, handler)\<close>
  appends to the registrations, and \<open>lookup\<close> returns the first registration, in
  registration order, with the method and exactly the path; failing that the first one
  under \<open>ALL\<close> with exactly the path; failing that, not-found (\<open>None\<close>).
\<close>

fun registration :: "call \<Rightarrow> (string \<times> string \<times> handler) option" where
  "registration (Post p h) = Some (''POST'', p, h)"
| "registration (Get p h) = Some (''GET'', p, h)"
| "registration (Put p h) = Some (''PUT'', p, h)"
| "registration (Delete p h) = Some (''DELETE'', p, h)"
| "registration (All p h) = Some (''ALL'', p, h)"
| "registration (Use m) = None"
| "registration (UseRouter p child) = None"

definition registrations :: "call list \<Rightarrow> (string \<times> string \<times> handler) list" where
  "registrations cs = List.map_filter registration cs"

definition first_registered ::
  "(string \<times> string \<times> handler) list \<Rightarrow> string \<Rightarrow> string \<Rightarrow> route option" where
  "first_registered regs m p =
     (case find (\<lambda>(m', p', h). m' = m \<and> p' = p) regs of
        None \<Rightarrow> None
      | Some (m', p', h) \<Rightarrow> Some \<lparr>route_path = p', handler = h\<rparr>)"

definition lookup_spec ::
  "(string \<times> string \<times> handler) list \<Rightarrow> string \<Rightarrow> string \<Rightarrow> route option" where
  "lookup_spec regs m p =
     (case first_registered regs m p of
        Some rt \<Rightarrow> Some rt
      | None \<Rightarrow> first_registered regs ''ALL'' p)"

text \<open>The bucket of a method: the routes stored under it, none when the key is absent.\<close>

definition bucket :: "router \<Rightarrow> string \<Rightarrow> route list" where
  "bucket r m = (case routes r m of None \<Rightarrow> [] | Some rs \<Rightarrow> rs)"

definition routes_of :: "(string \<times> string \<times> handler) list \<Rightarrow> string \<Rightarrow> route list" where
  "routes_of regs m =
     map (\<lambda>(m', p, h). \<lparr>route_path = p, handler = h\<rparr>) (filter (\<lambda>(m', p, h). m' = m) regs)"

text \<open>
  The middleware chain as the specification describes it: the user's steps in
  registration order, each inserted before the dispatch terminator, and each handed the
  rest of the chain as its continuation.
\<close>

fun registered_middleware :: "platform \<Rightarrow> call \<Rightarrow> middleware option" where
  "registered_middleware js (Use m) = Some m"
| "registered_middleware js (UseRouter p child) = Some (mount js p child)"
| "registered_middleware js _ = None"

definition registered_middlewares :: "platform \<Rightarrow> call list \<Rightarrow> middleware list" where
  "registered_middlewares js cs = List.map_filter (registered_middleware js) cs"

definition wrapped_chain :: "middleware list \<Rightarrow> step list" where
  "wrapped_chain ms = map (\<lambda>(i, m). Wrapped (int i) m) (enumerate 0 ms) @ [Terminator]"

fun chain :: "middleware list \<Rightarrow> (world \<Rightarrow> outcome option) \<Rightarrow> world \<Rightarrow> outcome option" where
  "chain [] k w = k w"
| "chain (m # ms) k w = m w (chain ms k)"

text \<open>The three mutators of a response, for sequences of calls.\<close>

datatype mutator = Status int | Json jsval | Send string

fun call_mutator :: "platform \<Rightarrow> world \<Rightarrow> mutator \<Rightarrow> world" where
  "call_mutator js w (Status c) = status c w"
| "call_mutator js w (Json d) = json js d w"
| "call_mutator js w (Send s) = send s w"

text \<open>The result of the built-in not-found handler.\<close>

definition not_found_result :: "platform \<Rightarrow> proxy_result" where
  "not_found_result js =
     \<lparr>result_statusCode = 404,
      result_body = JSON_stringify js (Obj [(''message'', Str ''not found'')]),
      result_headers = [(''Content-Type'', ''application/json'')]\<rparr>"

section \<open>A reference model of the runtime's builtins\<close>

text \<open>
  The theorems below hold for every \<open>platform\<close>. To evaluate them on concrete
  requests, this section models the builtins on a fragment: ASCII strings, integer
  numbers, JSON texts without \<^verbatim>\<open>\u\<close> escapes. In an array
  \<^verbatim>\<open>undefined\<close> is serialised as \<^verbatim>\<open>null\<close>, in an object a property with
  the value \<^verbatim>\<open>undefined\<close> is left out; the library serialises objects only. The
  parser is run with fuel, one unit for each character and one more.
\<close>

subsection \<open>Serialisation\<close>

fun show_nat :: "nat \<Rightarrow> string" where
  "show_nat n =
     (if n < 10 then [char_of (48 + n)]
      else show_nat (n div 10) @ [char_of (48 + n mod 10)])"

declare show_nat.simps [simp del]

definition show_int :: "int \<Rightarrow> string" where
  "show_int i = (if i < 0 then CHR ''-'' # show_nat (nat (- i)) else show_nat (nat i))"

definition hex_lower :: "nat \<Rightarrow> char" where
  "hex_lower n = (if n < 10 then char_of (48 + n) else char_of (87 + n))"

definition hex_upper :: "nat \<Rightarrow> char" where
  "hex_upper n = (if n < 10 then char_of (48 + n) else char_of (55 + n))"

definition escape_unit :: "char \<Rightarrow> string" where
  "escape_unit c =
     (if c = CHR 0x22 then [CHR 0x5C, CHR 0x22]
      else if c = CHR 0x5C then [CHR 0x5C, CHR 0x5C]
      else if c = CHR 0x08 then [CHR 0x5C, CHR ''b'']
      else if c = CHR 0x0C then [CHR 0x5C, CHR ''f'']
      else if c = CHR 0x0A then [CHR 0x5C, CHR ''n'']
      else if c = CHR 0x0D then [CHR 0x5C, CHR ''r'']
      else if c = CHR 0x09 then [CHR 0x5C, CHR ''t'']
      else if (of_char c :: nat) < 32
        then [CHR 0x5C, CHR ''u'', CHR ''0'', CHR ''0'',
              hex_lower (of_char c div 16), hex_lower (of_char c mod 16)]
      else [c])"

definition quote :: "string \<Rightarrow> string" where
  "quote s = CHR 0x22 # concat (map escape_unit s) @ [CHR 0x22]"

fun join_comma :: "string list \<Rightarrow> string" where
  "join_comma [] = []"
| "join_comma [x] = x"
| "join_comma (x # y # zs) = x @ CHR '','' # join_comma (y # zs)"

fun stringify :: "jsval \<Rightarrow> string" where
  "stringify Undefined = ''null''"
| "stringify Null = ''null''"
| "stringify (Bool b) = (if b then ''true'' else ''false'')"
| "stringify (Num i) = show_int i"
| "stringify (Str s) = quote s"
| "stringify (Arr xs) = CHR ''['' # join_comma (map stringify xs) @ '']''"
| "stringify (Obj ps) =
     CHR ''{'' #
       join_comma (map (\<lambda>(k, v). quote k @ CHR '':'' # stringify v)
                     (filter (\<lambda>(k, v). v \<noteq> Undefined) ps)) @ ''}''"

subsection \<open>Parsing\<close>

definition is_ws :: "char \<Rightarrow> bool" where
  "is_ws c = (c = CHR 0x20 \<or> c = CHR 0x09 \<or> c = CHR 0x0A \<or> c = CHR 0x0D)"

definition skip_ws :: "string \<Rightarrow> string" where
  "skip_ws s = dropWhile is_ws s"

definition is_digit :: "char \<Rightarrow> bool" where
  "is_digit c = (48 \<le> (of_char c :: nat) \<and> (of_char c :: nat) \<le> 57)"

definition unescape :: "char \<Rightarrow> char option" where
  "unescape e =
     (if e = CHR 0x22 \<or> e = CHR 0x5C \<or> e = CHR ''/'' then Some e
      else if e = CHR ''b'' then Some (CHR 0x08)
      else if e = CHR ''f'' then Some (CHR 0x0C)
      else if e = CHR ''n'' then Some (CHR 0x0A)
      else if e = CHR ''r'' then Some (CHR 0x0D)
      else if e = CHR ''t'' then Some (CHR 0x09)
      else None)"

fun scan_string :: "string \<Rightarrow> (string \<times> string) option" where
  "scan_string [] = None"
| "scan_string [c] = (if c = CHR 0x22 then Some ([], []) else None)"
| "scan_string (c # e # cs) =
     (if c = CHR 0x22 then Some ([], e # cs)
      else if c = CHR 0x5C then
        (case unescape e of
           None \<Rightarrow> None
         | Some u \<Rightarrow>
             (case scan_string cs of
                None \<Rightarrow> None
              | Some (s, rest) \<Rightarrow> Some (u # s, rest)))
      else if (of_char c :: nat) < 32 then None
      else
        (case scan_string (e # cs) of
           None \<Rightarrow> None
         | Some (s, rest) \<Rightarrow> Some (c # s, rest)))"

definition scan_number :: "string \<Rightarrow> (jsval \<times> string) option" where
  "scan_number s =
     (let neg = (case s of [] \<Rightarrow> False | c # _ \<Rightarrow> c = CHR ''-'');
          s1 = (if neg then tl s else s);
          ds = takeWhile is_digit s1;
          n = foldl (\<lambda>a d. 10 * a + (int (of_char d) - 48)) 0 ds
      in if ds = [] \<or> (1 < length ds \<and> hd ds = CHR ''0'') then None
         else Some (Num (if neg then - n else n), dropWhile is_digit s1))"

definition add_member :: "string \<Rightarrow> jsval \<Rightarrow> (string \<times> jsval) list \<Rightarrow> (string \<times> jsval) list" where
  "add_member k v ps =
     (k, (case map_of ps k of None \<Rightarrow> v | Some v' \<Rightarrow> v')) # filter (\<lambda>(k', _). k' \<noteq> k) ps"

fun parse_value :: "nat \<Rightarrow> string \<Rightarrow> (jsval \<times> string) option"
  and parse_elements :: "nat \<Rightarrow> string \<Rightarrow> (jsval list \<times> string) option"
  and parse_members :: "nat \<Rightarrow> string \<Rightarrow> ((string \<times> jsval) list \<times> string) option"
where
  "parse_value 0 s = None"
| "parse_value (Suc n) s =
     (case skip_ws s of
        [] \<Rightarrow> None
      | c # cs \<Rightarrow>
          if c = CHR ''{'' then
            (case skip_ws cs of
               [] \<Rightarrow> None
             | d # ds \<Rightarrow>
                 if d = CHR ''}'' then Some (Obj [], ds)
                 else (case parse_members n cs of
                         None \<Rightarrow> None
                       | Some (ps, rest) \<Rightarrow> Some (Obj ps, rest)))
          else if c = CHR ''['' then
            (case skip_ws cs of
               [] \<Rightarrow> None
             | d # ds \<Rightarrow>
                 if d = CHR '']'' then Some (Arr [], ds)
                 else (case parse_elements n cs of
                         None \<Rightarrow> None
                       | Some (vs, rest) \<Rightarrow> Some (Arr vs, rest)))
          else if c = CHR 0x22 then
            (case scan_string cs of
               None \<Rightarrow> None
             | Some (t, rest) \<Rightarrow> Some (Str t, rest))
          else if startsWith (c # cs) ''null'' then Some (Null, drop 4 (c # cs))
          else if startsWith (c # cs) ''true'' then Some (Bool True, drop 4 (c # cs))
          else if startsWith (c # cs) ''false'' then Some (Bool False, drop 5 (c # cs))
          else scan_number (c # cs))"
| "parse_elements 0 s = None"
| "parse_elements (Suc n) s =
     (case parse_value n s of
        None \<Rightarrow> None
      | Some (v, rest) \<Rightarrow>
          (case skip_ws rest of
             [] \<Rightarrow> None
           | c # cs \<Rightarrow>
               if c = CHR '']'' then Some ([v], cs)
               else if c = CHR '','' then
                 (case parse_elements n cs of
                    None \<Rightarrow> None
                  | Some (vs, rest') \<Rightarrow> Some (v # vs, rest'))
               else None))"
| "parse_members 0 s = None"
| "parse_members (Suc n) s =
     (case skip_ws s of
        [] \<Rightarrow> None
      | q # s1 \<Rightarrow>
          if q \<noteq> CHR 0x22 then None
          else
            (case scan_string s1 of
               None \<Rightarrow> None
             | Some (k, s2) \<Rightarrow>
                 (case skip_ws s2 of
                    [] \<Rightarrow> None
                  | colon # s3 \<Rightarrow>
                      if colon \<noteq> CHR '':'' then None
                      else
                        (case parse_value n s3 of
                           None \<Rightarrow> None
                         | Some (v, s4) \<Rightarrow>
                             (case skip_ws s4 of
                                [] \<Rightarrow> None
                              | c # s5 \<Rightarrow>
                                  if c = CHR ''}'' then Some ([(k, v)], s5)
                                  else if c = CHR '','' then
                                    (case parse_members n s5 of
                                       None \<Rightarrow> None
                                     | Some (ps, rest) \<Rightarrow> Some (add_member k v ps, rest))
                                  else None)))))"

definition parse_json :: "string \<Rightarrow> jsval option" where
  "parse_json s =
     (case parse_value (Suc (length s)) s of
        None \<Rightarrow> None
      | Some (v, rest) \<Rightarrow> if skip_ws rest = [] then Some v else None)"

subsection \<open>Base64\<close>

definition base64_value :: "char \<Rightarrow> nat option" where
  "base64_value c =
     (let n = (of_char c :: nat) in
      if 65 \<le> n \<and> n \<le> 90 then Some (n - 65)
      else if 97 \<le> n \<and> n \<le> 122 then Some (n - 71)
      else if 48 \<le> n \<and> n \<le> 57 then Some (n + 4)
      else if c = CHR ''+'' \<or> c = CHR ''-'' then Some 62
      else if c = CHR ''/'' \<or> c = CHR ''_'' then Some 63
      else None)"

fun base64_bytes :: "nat list \<Rightarrow> string" where
  "base64_bytes (a # b # c # d # rest) =
     char_of (a * 4 + b div 16) # char_of (b mod 16 * 16 + c div 4) #
     char_of (c mod 4 * 64 + d) # base64_bytes rest"
| "base64_bytes [a, b, c] = [char_of (a * 4 + b div 16), char_of (b mod 16 * 16 + c div 4)]"
| "base64_bytes [a, b] = [char_of (a * 4 + b div 16)]"
| "base64_bytes _ = []"

definition base64_decode :: "string \<Rightarrow> string" where
  "base64_decode s =
     base64_bytes (List.map_filter base64_value (takeWhile (\<lambda>c. c \<noteq> CHR ''='') s))"

subsection \<open>URI encoding\<close>

definition uri_unreserved :: "char \<Rightarrow> bool" where
  "uri_unreserved c =
     (let n = (of_char c :: nat) in
      (65 \<le> n \<and> n \<le> 90) \<or> (97 \<le> n \<and> n \<le> 122) \<or> (48 \<le> n \<and> n \<le> 57) \<or>
      c \<in> set [CHR ''-'', CHR ''_'', CHR ''.'', CHR ''!'', CHR ''~'', CHR ''*'', CHR 0x27,
                CHR ''('', CHR '')''])"

definition uri_encode :: "string \<Rightarrow> string" where
  "uri_encode s =
     concat (map (\<lambda>c. if uri_unreserved c then [c]
                       else [CHR ''%'', hex_upper (of_char c div 16), hex_upper (of_char c mod 16)]) s)"

definition reference_platform :: platform where
  "reference_platform =
     \<lparr>JSON_stringify = stringify, JSON_parse = parse_json,
      base64_to_utf8 = base64_decode, encodeURIComponent = uri_encode\<rparr>"

section \<open>Example requests, events and routers\<close>

definition request_of :: "string \<Rightarrow> string \<Rightarrow> request" where
  "request_of m p = \<lparr>req_body = Null, headers = Map.empty, method = m, path = p\<rparr>"

definition event_of :: "string option \<Rightarrow> bool \<Rightarrow> event" where
  "event_of b enc =
     \<lparr>ev_body = b, isBase64Encoded = enc, ev_headers = Map.empty,
      httpMethod = ''POST'', ev_path = ''/''\<rparr>"

text \<open>
  \<open>deny\<close> finishes the response with status 403 and never calls \<^verbatim>\<open>next\<close>;
  \<open>mark s\<close> appends \<open>s\<close> to the body of the response and continues; \<open>halt\<close>
  neither finishes nor continues.
\<close>

definition deny :: middleware where
  "deny w next = Some (Returned (send ''denied'' (status 403 w)))"

definition mark :: "string \<Rightarrow> middleware" where
  "mark s w next = next (w\<lparr>res := (res w)\<lparr>body := body (res w) @ s\<rparr>\<rparr>)"

definition guarded_child :: "platform \<Rightarrow> router" where
  "guarded_child js = build js [Use deny, Get ''/w'' (send ''widgets'')]"

definition nested_child :: "platform \<Rightarrow> router" where
  "nested_child js =
     build js [UseRouter ''/v1'' (build js [Get ''/x'' (send ''nested'')]),
               Get ''/v1/x'' (send ''own'')]"

definition halt :: middleware where
  "halt w next = Some (Returned w)"

section \<open>Evaluation rules\<close>

lemmas router_eval =
  build_def new_Router_def get_def post_def put_def delete_def all_methods_def push_route_def
  use_def useRouter_def splice_insert_def array_get_def getRoute_def findRoute_def
  handleRequest_def executeHandler_def notFound_def

lemmas response_eval =
  send_def status_def json_def finish_def resolve_def resToResponse_def new_Response_def
  new_world_def

lemmas request_eval =
  request_of_def startsWith_def removePathPrefix_def addPathPrefix_def substring_def

lemma ref_parse_examples:
  \<open>parse_json ''{"a":1}'' = Some (Obj [(''a'', Num 1)])\<close>
  \<open>parse_json ''hello'' = None\<close>
  \<open>parse_json [] = None\<close>
  by code_simp+

lemma ref_base64_examples:
  \<open>base64_decode ''eyJhIjoxfQ=='' = ''{"a":1}''\<close>
  \<open>base64_decode ''aGVsbG8='' = ''hello''\<close>
  \<open>base64_decode [] = []\<close>
  by code_simp+

lemma reference_platform_sel:
  "JSON_stringify reference_platform = stringify"
  "JSON_parse reference_platform = parse_json"
  "base64_to_utf8 reference_platform = base64_decode"
  "encodeURIComponent reference_platform = uri_encode"
  by (simp_all add: reference_platform_def)

lemma ref_stringify_examples:
  \<open>stringify (Obj [(''message'', Str ''not found'')]) = ''{"message":"not found"}''\<close>
  \<open>stringify (Obj [(''x'', Num 1)]) = ''{"x":1}''\<close>
  by code_simp+

section \<open>Properties of the operations\<close>

subsection \<open>Path prefixes\<close>

lemma roundtrip:
  "startsWith (path r) p \<Longrightarrow> addPathPrefix p (removePathPrefix p r) = r"
proof -
  assume "startsWith (path r) p"
  then have "p @ drop (length p) (path r) = path r"
    unfolding startsWith_def by (metis append_take_drop_id)
  then show ?thesis
    by (simp add: addPathPrefix_def removePathPrefix_def substring_def)
qed

subsection \<open>A settled promise\<close>

lemma resolve_settled: "resolve v (Some v0) = Some v0"
  by (simp add: resolve_def)

lemma call_mutator_settled:
  "promise w = Some v \<Longrightarrow> promise (call_mutator js w mu) = Some v"
  by (cases mu) (simp_all add: status_def json_def send_def finish_def resolve_settled)

lemma call_mutators_settled:
  "promise w = Some v \<Longrightarrow> promise (foldl (call_mutator js) w mus) = Some v"
  by (induction mus arbitrary: w) (simp_all add: call_mutator_settled)

subsection \<open>Buckets of a composed router\<close>

lemma ALL_not_inherited: "''ALL'' \<notin> set Object_prototype_properties"
  by (simp add: Object_prototype_properties_def)

lemma findRoute_bucket:
  "m \<notin> set Object_prototype_properties \<Longrightarrow>
   findRoute r m p = Inr (find (\<lambda>rt. route_path rt = p) (bucket r m))"
  by (simp add: findRoute_def bucket_def split: option.splits)

lemma findRoute_inherited:
  "m \<in> set Object_prototype_properties \<Longrightarrow> routes r m = None \<Longrightarrow>
   findRoute r m p = Inl TypeError"
  by (simp add: findRoute_def)

lemma bucket_push_route:
  "bucket (push_route m' p h r) m =
     (if m = m' then bucket r m @ [\<lparr>route_path = p, handler = h\<rparr>] else bucket r m)"
  by (simp add: bucket_def push_route_def Let_def split: option.splits)

lemma bucket_use: "bucket (use mw r) m = bucket r m"
  by (simp add: bucket_def use_def Let_def)

lemma bucket_apply_call:
  "bucket (apply_call js r c) m =
     bucket r m @ routes_of (case registration c of None \<Rightarrow> [] | Some g \<Rightarrow> [g]) m"
  by (cases c)
     (simp_all add: routes_of_def post_def get_def put_def delete_def all_methods_def
        useRouter_def bucket_push_route bucket_use)

lemma routes_of_append: "routes_of (xs @ ys) m = routes_of xs m @ routes_of ys m"
  by (simp add: routes_of_def)

lemma registrations_snoc:
  "registrations (cs @ [c]) =
     registrations cs @ (case registration c of None \<Rightarrow> [] | Some g \<Rightarrow> [g])"
  by (simp add: registrations_def List.map_filter_def split: option.splits)

lemma bucket_build: "bucket (build js cs) m = routes_of (registrations cs) m"
proof (induction cs rule: rev_induct)
  case Nil
  show ?case
    by (simp add: build_def new_Router_def bucket_def routes_of_def registrations_def
        List.map_filter_def)
next
  case (snoc c cs)
  have "build js (cs @ [c]) = apply_call js (build js cs) c"
    by (simp add: build_def)
  then show ?case
    using snoc.IH by (simp add: bucket_apply_call registrations_snoc routes_of_append)
qed

lemma find_routes_of:
  "find (\<lambda>rt. route_path rt = p) (routes_of regs m) = first_registered regs m p"
proof (induction regs)
  case Nil
  show ?case by (simp add: routes_of_def first_registered_def)
next
  case (Cons g regs)
  obtain m' p' h where g: "g = (m', p', h)" by (cases g)
  show ?case
    using Cons.IH by (auto simp: g routes_of_def first_registered_def)
qed

lemma getRoute_bucket:
  assumes "method rq \<notin> set Object_prototype_properties"
  shows "getRoute r rq =
           Inr (case find (\<lambda>rt. route_path rt = path rq) (bucket r (method rq)) of
                  Some rt \<Rightarrow> Some rt
                | None \<Rightarrow> find (\<lambda>rt. route_path rt = path rq) (bucket r ''ALL''))"
  using assms
  by (simp add: getRoute_def findRoute_bucket ALL_not_inherited split: option.splits)

text \<open>
  For a method that is not an inherited name, \<^verbatim>\<open>getRoute\<close> on a composed router is
  the reference lookup on the registrations.
\<close>

lemma getRoute_build:
  "method rq \<notin> set Object_prototype_properties \<Longrightarrow>
   getRoute (build js cs) rq = Inr (lookup_spec (registrations cs) (method rq) (path rq))"
  by (simp add: getRoute_bucket lookup_spec_def bucket_build find_routes_of
      split: option.splits)

lemma getRoute_None:
  "method rq \<notin> set Object_prototype_properties \<Longrightarrow>
   (getRoute r rq = Inr None) =
     (\<forall>rt \<in> set (bucket r (method rq) @ bucket r ''ALL''). route_path rt \<noteq> path rq)"
proof -
  assume m: "method rq \<notin> set Object_prototype_properties"
  have "(getRoute r rq = Inr None) =
          (find (\<lambda>rt. route_path rt = path rq) (bucket r (method rq)) = None \<and>
           find (\<lambda>rt. route_path rt = path rq) (bucket r ''ALL'') = None)"
    by (simp add: getRoute_bucket [OF m] split: option.splits)
  then show ?thesis
    by (auto simp: find_None_iff)
qed

text \<open>
  A composed router has no own bucket under an inherited name, so for such a method
  \<^verbatim>\<open>getRoute\<close> throws whatever has been registered.
\<close>

lemma routes_push_route_other: "m \<noteq> m' \<Longrightarrow> routes (push_route m' p h r) m = routes r m"
  by (simp add: push_route_def Let_def)

lemma routes_use: "routes (use mw r) = routes r"
  by (simp add: use_def Let_def)

lemma routes_apply_call_inherited:
  assumes "m \<in> set Object_prototype_properties"
  shows "routes (apply_call js r c) m = routes r m"
proof -
  have "m \<noteq> ''POST''" "m \<noteq> ''GET''" "m \<noteq> ''PUT''" "m \<noteq> ''DELETE''" "m \<noteq> ''ALL''"
    using assms by (auto simp: Object_prototype_properties_def)
  then show ?thesis
    by (cases c)
       (simp_all add: post_def get_def put_def delete_def all_methods_def useRouter_def
          routes_push_route_other routes_use)
qed

lemma routes_build_inherited:
  "m \<in> set Object_prototype_properties \<Longrightarrow> routes (build js cs) m = None"
proof (induction cs rule: rev_induct)
  case Nil
  show ?case by (simp add: build_def new_Router_def)
next
  case (snoc c cs)
  have "build js (cs @ [c]) = apply_call js (build js cs) c"
    by (simp add: build_def)
  then show ?case
    using snoc by (simp add: routes_apply_call_inherited)
qed

lemma getRoute_build_inherited:
  "method rq \<in> set Object_prototype_properties \<Longrightarrow> getRoute (build js cs) rq = Inl TypeError"
  by (simp add: getRoute_def findRoute_inherited routes_build_inherited)

lemma handleRequest_miss:
  "getRoute r (req w) = Inr None \<Longrightarrow> handleRequest js r w = Returned (notFound js w)"
  by (simp add: handleRequest_def)

lemma handleRequest_hit:
  "getRoute r (req w) = Inr (Some rt) \<Longrightarrow> handleRequest js r w = Returned (executeHandler rt w)"
  by (simp add: handleRequest_def)

lemma handleRequest_throws:
  "getRoute r (req w) = Inl e \<Longrightarrow> handleRequest js r w = Threw e w"
  by (simp add: handleRequest_def)

lemma notFound_fields:
  "statusCode (res (notFound js w)) = 404"
  "body (res (notFound js w)) = JSON_stringify js (Obj [(''message'', Str ''not found'')])"
  "contentType (res (notFound js w)) = ''application/json''"
  "req (notFound js w) = req w"
  "resolver_calls (notFound js w) = Suc (resolver_calls w)"
  "promise w = None \<Longrightarrow> promise (notFound js w) = Some (not_found_result js)"
  by (simp_all add: notFound_def executeHandler_def json_def status_def finish_def
      resolve_def resToResponse_def not_found_result_def)

subsection \<open>The mount step\<close>

lemma mount_no_prefix:
  "\<not> startsWith (path (req w)) s \<Longrightarrow> mount js s child w next = next w"
  by (simp add: mount_def)

lemma mount_no_match:
  assumes "startsWith (path (req w)) s"
    and "getRoute child (removePathPrefix s (req w)) = Inr None"
  shows "mount js s child w next = next w"
proof -
  have "w\<lparr>req := addPathPrefix s (removePathPrefix s (req w))\<rparr> = w"
    using roundtrip [OF assms(1)] by simp
  with assms show ?thesis
    by (simp add: mount_def Let_def)
qed

lemma mount_match:
  assumes "startsWith (path (req w)) s"
    and "getRoute child (removePathPrefix s (req w)) = Inr (Some rt)"
  shows "mount js s child w next =
         Some (Returned (unawaited
           (handleRequest js child (w\<lparr>req := removePathPrefix s (req w)\<rparr>))))"
  using assms by (simp add: mount_def Let_def)

lemma mount_throws:
  assumes "startsWith (path (req w)) s"
    and "getRoute child (removePathPrefix s (req w)) = Inl e"
  shows "mount js s child w next = Some (Threw e (w\<lparr>req := removePathPrefix s (req w)\<rparr>))"
  using assms by (simp add: mount_def Let_def)

text \<open>The mount step never reads the child's middleware array.\<close>

lemma findRoute_ignores_middlewares: "findRoute (r\<lparr>middlewares := ms\<rparr>) = findRoute r"
  by (intro ext) (simp add: findRoute_def)

lemma getRoute_ignores_middlewares: "getRoute (r\<lparr>middlewares := ms\<rparr>) = getRoute r"
  by (intro ext)
     (simp add: getRoute_def findRoute_ignores_middlewares split: sum.splits option.splits)

lemma handleRequest_ignores_middlewares:
  "handleRequest js (r\<lparr>middlewares := ms\<rparr>) = handleRequest js r"
  by (intro ext)
     (simp add: handleRequest_def getRoute_ignores_middlewares split: sum.splits option.splits)

lemma mount_ignores_child_middlewares:
  "mount js s (child\<lparr>middlewares := ms\<rparr>) = mount js s child"
  by (intro ext)
     (simp add: mount_def Let_def getRoute_ignores_middlewares handleRequest_ignores_middlewares
        split: sum.splits option.splits)

subsection \<open>The middleware array of a composed router\<close>

lemma length_wrapped_chain: "length (wrapped_chain ms) = Suc (length ms)"
  by (simp add: wrapped_chain_def)

lemma wrapped_chain_snoc:
  "wrapped_chain (ms @ [m]) =
     butlast (wrapped_chain ms) @ [Wrapped (int (length ms)) m, Terminator]"
  by (simp add: wrapped_chain_def enumerate_append_eq butlast_append)

lemma splice_insert_before_last:
  "xs \<noteq> [] \<Longrightarrow> splice_insert (int (length xs) - 1) x xs = butlast xs @ [x, last xs]"
proof -
  assume ne: "xs \<noteq> []"
  then have n: "nat (int (length xs) - 1) = length xs - 1"
    by simp
  have "take (length xs - 1) xs = butlast xs"
    by (simp add: butlast_conv_take)
  moreover have "drop (length xs - 1) xs = [last xs]"
    using ne by (metis append_butlast_last_id append_eq_conv_conj length_butlast)
  moreover have "0 \<le> int (length xs) - 1" "int (length xs) - 1 \<le> int (length xs)"
    using ne by (simp_all add: Suc_leI)
  ultimately show ?thesis
    using n by (simp add: splice_insert_def Let_def min_def)
qed

lemma use_wrapped_chain:
  assumes "middlewares r = wrapped_chain ms"
  shows "middlewares (use m r) = wrapped_chain (ms @ [m])"
proof -
  have ne: "middlewares r \<noteq> []" and len: "int (length (middlewares r)) - 1 = int (length ms)"
    and la: "last (middlewares r) = Terminator"
    using assms by (simp_all add: wrapped_chain_def)
  show ?thesis
    using splice_insert_before_last [OF ne] len la assms
    by (simp add: use_def Let_def wrapped_chain_snoc)
qed

lemma middlewares_push_route: "middlewares (push_route m' p h r) = middlewares r"
  by (simp add: push_route_def Let_def)

lemma registered_middlewares_snoc:
  "registered_middlewares js (cs @ [c]) =
     registered_middlewares js cs @
       (case registered_middleware js c of None \<Rightarrow> [] | Some m \<Rightarrow> [m])"
  by (simp add: registered_middlewares_def List.map_filter_def split: option.splits)

lemma middlewares_build:
  "middlewares (build js cs) = wrapped_chain (registered_middlewares js cs)"
proof (induction cs rule: rev_induct)
  case Nil
  show ?case
    by (simp add: build_def new_Router_def wrapped_chain_def registered_middlewares_def
        List.map_filter_def)
next
  case (snoc c cs)
  have b: "build js (cs @ [c]) = apply_call js (build js cs) c"
    by (simp add: build_def)
  show ?case
    unfolding b registered_middlewares_snoc using snoc.IH
    by (cases c)
       (simp_all add: post_def get_def put_def delete_def all_methods_def useRouter_def
          middlewares_push_route use_wrapped_chain)
qed

lemma array_get_wrapped_chain:
  "array_get (wrapped_chain ms) (int k) =
     (if k < length ms then Some (Wrapped (int k) (ms ! k))
      else if k = length ms then Some Terminator else None)"
  by (auto simp: array_get_def wrapped_chain_def nth_append nth_enumerate_eq)

lemma call_middleware_chain:
  assumes "middlewares r = wrapped_chain ms"
  shows "k \<le> length ms \<Longrightarrow> length ms - k < fuel \<Longrightarrow>
         call_middleware fuel js r (int k) w =
           chain (drop k ms) (\<lambda>w'. Some (Returned (unawaited (handleRequest js r w')))) w"
proof (induction fuel arbitrary: k w)
  case 0
  then show ?case by simp
next
  case (Suc fuel)
  show ?case
  proof (cases "k = length ms")
    case True
    then show ?thesis
      by (simp add: assms array_get_wrapped_chain)
  next
    case False
    with Suc.prems have lt: "k < length ms" by simp
    then have d: "drop k ms = ms ! k # drop (Suc k) ms"
      by (simp add: Cons_nth_drop_Suc)
    have "call_middleware fuel js r (int k + 1) w' =
            chain (drop (Suc k) ms) (\<lambda>w'. Some (Returned (unawaited (handleRequest js r w')))) w'" for w'
      using Suc.IH [of "Suc k" w'] lt Suc.prems by (simp add: add.commute)
    then have "(\<lambda>w'. call_middleware fuel js r (int k + 1) w') =
            chain (drop (Suc k) ms) (\<lambda>w'. Some (Returned (unawaited (handleRequest js r w'))))"
      by (intro ext)
    then show ?thesis
      using lt by (simp add: assms array_get_wrapped_chain d)
  qed
qed

text \<open>A step that does not use its continuation halts the chain: what follows it is not run.\<close>

lemma chain_halts:
  "(\<And>w k k'. m w k = m w k') \<Longrightarrow> chain (pre @ m # rest) k w = chain (pre @ [m]) k' w"
proof (induction pre arbitrary: w)
  case Nil
  then show ?case by simp
next
  case (Cons a pre)
  have "chain (pre @ m # rest) k = chain (pre @ [m]) k'"
    using Cons by (intro ext) simp
  then show ?case by simp
qed

section \<open>Request: path prefixes\<close>

text \<open>
  Claim C3, as stated: for every request \<open>r\<close> and every string \<open>p\<close>,
  \<^verbatim>\<open>removePathPrefix(p)\<close> followed by \<^verbatim>\<open>addPathPrefix(p)\<close> restores the path.
  It fails when \<open>p\<close> is not a prefix of the path: \<^verbatim>\<open>substring\<close> drops
  \<open>p.length\<close> code units whatever they are. With path \<^verbatim>\<open>/ab\<close> and prefix
  \<^verbatim>\<open>/x\<close> the pair of calls leaves \<^verbatim>\<open>/xb\<close>.
\<close>

theorem path_prefix_roundtrip_counterexample:
  "path (addPathPrefix ''/x'' (removePathPrefix ''/x'' (request_of ''GET'' ''/ab''))) \<noteq> ''/ab''"
  by (simp add: request_eval)

text \<open>
  Claim C3, amended: \<^verbatim>\<open>removePathPrefix(p)\<close> followed by
  \<^verbatim>\<open>addPathPrefix(p)\<close> restores the request, its path included, exactly when the
  path starts with \<open>p\<close>. The mount step, the only caller, checks
  \<^verbatim>\<open>startsWith\<close> first.
\<close>

theorem path_prefix_roundtrip:
  "(addPathPrefix p (removePathPrefix p r) = r) = startsWith (path r) p"
proof
  assume "addPathPrefix p (removePathPrefix p r) = r"
  then have "path (addPathPrefix p (removePathPrefix p r)) = path r" by simp
  then have "p @ drop (length p) (path r) = path r"
    by (simp add: addPathPrefix_def removePathPrefix_def substring_def)
  then have "take (length p) (path r) = take (length p) (p @ drop (length p) (path r))"
    by simp
  then show "startsWith (path r) p" by (simp add: startsWith_def)
next
  assume "startsWith (path r) p"
  then show "addPathPrefix p (removePathPrefix p r) = r" by (rule roundtrip)
qed

text \<open>
  Witness for C3: the path \<^verbatim>\<open>/api/widgets\<close> starts with \<^verbatim>\<open>/api\<close>; removing the
  prefix leaves \<^verbatim>\<open>/widgets\<close>, adding it back restores the request.
\<close>

theorem path_prefix_roundtrip_witness:
  "startsWith (path (request_of ''GET'' ''/api/widgets'')) ''/api'' \<and>
   addPathPrefix ''/api'' (removePathPrefix ''/api'' (request_of ''GET'' ''/api/widgets'')) =
     request_of ''GET'' ''/api/widgets'' \<and>
   path (removePathPrefix ''/api'' (request_of ''GET'' ''/api/widgets'')) = ''/widgets''"
  using path_prefix_roundtrip [of "''/api''" "request_of ''GET'' ''/api/widgets''"]
  by (simp add: request_eval)

section \<open>Response: mutators and the completion signal\<close>

text \<open>
  Claim C9: \<^verbatim>\<open>status(c)\<close> sets \<open>statusCode\<close> to \<open>c\<close>, leaves \<open>body\<close>,
  \<open>contentType\<close> and the request unchanged, and does not invoke the resolver: the
  promise and the count of resolver calls are as before. \<^verbatim>\<open>json\<close> and
  \<^verbatim>\<open>send\<close> each invoke the resolver once. The world that \<open>status\<close> returns
  holds the receiver itself, which is how \<^verbatim>\<open>return this\<close> is modelled.
\<close>

theorem status_sets_code_only:
  "statusCode (res (status c w)) = c \<and>
   body (res (status c w)) = body (res w) \<and>
   contentType (res (status c w)) = contentType (res w) \<and>
   req (status c w) = req w \<and>
   promise (status c w) = promise w \<and>
   resolver_calls (status c w) = resolver_calls w \<and>
   resolver_calls (json js d w) = Suc (resolver_calls w) \<and>
   resolver_calls (send s w) = Suc (resolver_calls w)"
  by (simp add: status_def json_def send_def finish_def)

text \<open>
  Witness for C9: on a fresh response, \<^verbatim>\<open>status(404)\<close> leaves the promise pending
  and the body and content type at their defaults.
\<close>

theorem status_sets_code_only_witness:
  "statusCode (res (status 404 (new_world (request_of ''GET'' ''/'')))) = 404 \<and>
   body (res (status 404 (new_world (request_of ''GET'' ''/'')))) = [] \<and>
   contentType (res (status 404 (new_world (request_of ''GET'' ''/'')))) = ''text/html'' \<and>
   promise (status 404 (new_world (request_of ''GET'' ''/''))) = None \<and>
   resolver_calls (status 404 (new_world (request_of ''GET'' ''/''))) = 0 \<and>
   resolver_calls (send ''x'' (new_world (request_of ''GET'' ''/''))) = 1"
  using status_sets_code_only [of 404 "new_world (request_of ''GET'' ''/'')" reference_platform
      Null "''x''"]
  by (simp add: new_world_def new_Response_def)

text \<open>
  Claim C7: \<^verbatim>\<open>json(m)\<close> sets the body to the serialisation of \<open>m\<close> and the content
  type to \<^verbatim>\<open>application/json\<close>, and invokes the resolver exactly once. If the
  promise was pending, it is settled with the response as it is at that moment, and no
  sequence of later calls of \<^verbatim>\<open>status\<close>, \<^verbatim>\<open>json\<close> and \<^verbatim>\<open>send\<close> changes
  it. A promise that was settled before stays as it was, whatever mutators are called.
\<close>

theorem json_finishes_once:
  "body (res (json js m w)) = JSON_stringify js m \<and>
   contentType (res (json js m w)) = ''application/json'' \<and>
   statusCode (res (json js m w)) = statusCode (res w) \<and>
   req (json js m w) = req w \<and>
   resolver_calls (json js m w) = Suc (resolver_calls w) \<and>
   (promise w = None \<longrightarrow>
      promise (json js m w) = Some (resToResponse (res (json js m w))) \<and>
      promise (foldl (call_mutator js) (json js m w) mus) = promise (json js m w)) \<and>
   (\<forall>v. promise w = Some v \<longrightarrow> promise (foldl (call_mutator js) w mus) = Some v)"
proof -
  have fields: "body (res (json js m w)) = JSON_stringify js m"
    "contentType (res (json js m w)) = ''application/json''"
    "statusCode (res (json js m w)) = statusCode (res w)"
    "req (json js m w) = req w"
    "resolver_calls (json js m w) = Suc (resolver_calls w)"
    by (simp_all add: json_def finish_def)
  have first: "promise (json js m w) = Some (resToResponse (res (json js m w)))"
    if "promise w = None"
    using that by (simp add: json_def finish_def resolve_def)
  have later: "promise (foldl (call_mutator js) (json js m w) mus) = promise (json js m w)"
    if "promise w = None"
    using first [OF that] call_mutators_settled by simp
  show ?thesis
    using fields first later call_mutators_settled by blast
qed

text \<open>
  Witness for C7: on a fresh response \<^verbatim>\<open>json({x: 1})\<close> settles the promise with
  status 200, the serialised body and the JSON content type; \<^verbatim>\<open>status(500)\<close>,
  \<^verbatim>\<open>send("late")\<close> and a second \<^verbatim>\<open>json\<close> afterwards do not change it. The
  same calls after \<^verbatim>\<open>send("first")\<close> leave that first result in place.
\<close>

theorem json_finishes_once_witness:
  \<open>promise (new_world (request_of ''GET'' ''/'')) = None \<and>
   promise (foldl (call_mutator reference_platform)
              (json reference_platform (Obj [(''x'', Num 1)]) (new_world (request_of ''GET'' ''/'')))
              [Status 500, Send ''late'', Json Null]) =
     Some \<lparr>result_statusCode = 200, result_body = ''{"x":1}'',
           result_headers = [(''Content-Type'', ''application/json'')]\<rparr> \<and>
   promise (send ''first'' (new_world (request_of ''GET'' ''/''))) =
     Some \<lparr>result_statusCode = 200, result_body = ''first'',
           result_headers = [(''Content-Type'', ''text/html'')]\<rparr> \<and>
   promise (foldl (call_mutator reference_platform)
              (send ''first'' (new_world (request_of ''GET'' ''/'')))
              [Status 500, Send ''late'', Json Null]) =
     Some \<lparr>result_statusCode = 200, result_body = ''first'',
           result_headers = [(''Content-Type'', ''text/html'')]\<rparr>\<close>
proof -
  let ?w = "new_world (request_of ''GET'' ''/'')"
  let ?mus = "[Status 500, Send ''late'', Json Null]"
  have p: "promise ?w = None"
    by (simp add: new_world_def)
  have s: \<open>JSON_stringify reference_platform (Obj [(''x'', Num 1)]) = ''{"x":1}''\<close>
    by (simp only: reference_platform_sel ref_stringify_examples)
  have f: "promise (send ''first'' ?w) =
     Some \<lparr>result_statusCode = 200, result_body = ''first'',
           result_headers = [(''Content-Type'', ''text/html'')]\<rparr>"
    by (simp add: response_eval)
  show ?thesis
    using json_finishes_once [of reference_platform "Obj [(''x'', Num 1)]" ?w ?mus]
      json_finishes_once [of reference_platform "Obj [(''x'', Num 1)]" "send ''first'' ?w" ?mus]
      p s f
    by (simp add: resToResponse_def new_world_def new_Response_def)
qed

section \<open>Route table and lookup\<close>

text \<open>
  Claim C2 gives the lookup for every method and path: the first route of the method's
  bucket with exactly the path, failing that the first one of the \<open>ALL\<close> bucket,
  failing that not-found. The code does this for every method that is not an inherited
  name (\<open>getRoute_build\<close>). For an inherited name it throws before it reaches the
  \<open>ALL\<close> fallback (\<open>getRoute_build_inherited\<close>): with \<open>ALL /p\<close> registered, the
  reference lookup of \<open>constructor /p\<close> returns that route and of
  \<open>constructor /q\<close> not-found, and the code throws a \<^verbatim>\<open>TypeError\<close> for both,
  while \<open>GET /p\<close> finds the route.
\<close>

theorem lookup_throws_for_inherited_method:
  "lookup_spec (registrations [All ''/p'' h]) ''constructor'' ''/p'' =
     Some \<lparr>route_path = ''/p'', handler = h\<rparr> \<and>
   getRoute (build js [All ''/p'' h]) (request_of ''constructor'' ''/p'') = Inl TypeError \<and>
   lookup_spec (registrations [All ''/p'' h]) ''constructor'' ''/q'' = None \<and>
   getRoute (build js [All ''/p'' h]) (request_of ''constructor'' ''/q'') = Inl TypeError \<and>
   getRoute (build js [All ''/p'' h]) (request_of ''GET'' ''/p'') =
     Inr (Some \<lparr>route_path = ''/p'', handler = h\<rparr>)"
  by (simp add: lookup_spec_def first_registered_def registrations_def List.map_filter_def
      router_eval request_of_def Object_prototype_properties_def)

text \<open>
  When the lookup misses, route dispatch runs the built-in not-found handler: status 404,
  the serialisation of \<^verbatim>\<open>{message: "not found"}\<close>, content type
  \<^verbatim>\<open>application/json\<close>, finished once; a router without middleware returns the
  fulfilled promise.
\<close>

lemma miss_gets_404:
  assumes "getRoute r rq = Inr None"
  shows "(req w = rq \<longrightarrow>
            handleRequest js r w = Returned (notFound js w) \<and>
            statusCode (res (notFound js w)) = 404 \<and>
            body (res (notFound js w)) =
              JSON_stringify js (Obj [(''message'', Str ''not found'')]) \<and>
            contentType (res (notFound js w)) = ''application/json'' \<and>
            resolver_calls (notFound js w) = Suc (resolver_calls w) \<and>
            (promise w = None \<longrightarrow> promise (notFound js w) = Some (not_found_result js))) \<and>
         (middlewares r = [Terminator] \<longrightarrow>
            getResponse (Suc fuel) js r rq = Some (Fulfilled (not_found_result js)))"
proof -
  have h: "handleRequest js r w = Returned (notFound js w)" if "req w = rq" for w
    using assms that by (simp add: handleRequest_miss)
  have "getResponse (Suc fuel) js r rq = Some (Fulfilled (not_found_result js))"
    if "middlewares r = [Terminator]"
    using that h [of "new_world rq"]
    by (simp add: getResponse_def array_get_def new_world_def notFound_fields)
  then show ?thesis
    using h by (simp add: notFound_fields)
qed

text \<open>
  Claim C6 says that every request that matches no route of its method's bucket and no
  route of the \<open>ALL\<close> bucket gets the 404 of the built-in handler, and that the miss
  never surfaces as a failure. The code does this when the lookup returns
  (\<open>miss_gets_404\<close>, with \<open>getRoute_None\<close>). For the method \<open>constructor\<close> the
  router with \<open>GET /a\<close> has no route in either bucket, yet the lookup throws inside
  \<^verbatim>\<open>handleRequest\<close>: its promise is rejected, the not-found handler never runs, the
  response is not finished and the promise of \<^verbatim>\<open>getResponse\<close> stays pending.
\<close>

theorem inherited_method_gets_no_404:
  "bucket (build js [Get ''/a'' h]) ''constructor'' = [] \<and>
   bucket (build js [Get ''/a'' h]) ''ALL'' = [] \<and>
   handleRequest js (build js [Get ''/a'' h]) (new_world (request_of ''constructor'' ''/a'')) =
     Threw TypeError (new_world (request_of ''constructor'' ''/a'')) \<and>
   getResponse 1 js (build js [Get ''/a'' h]) (request_of ''constructor'' ''/a'') = Some Pending \<and>
   getResponse 1 js (build js [Get ''/a'' h]) (request_of ''POST'' ''/a'') =
     Some (Fulfilled (not_found_result js))"
  by (simp add: bucket_def getResponse_def router_eval response_eval request_of_def
      not_found_result_def Object_prototype_properties_def)

section \<open>Mounting a child router\<close>

text \<open>
  The mount step for a child at prefix \<open>s\<close> falls through with the world untouched
  when the path does not start with \<open>s\<close>, and when it does and the child's lookup
  returns no route for the stripped path: the prefix is added back and the continuation
  is called on the world the step received.
\<close>

lemma mount_fall_through:
  "(\<not> startsWith (path (req w)) s \<longrightarrow> mount js s child w next = next w) \<and>
   (startsWith (path (req w)) s \<and> getRoute child (removePathPrefix s (req w)) = Inr None \<longrightarrow>
      mount js s child w next = next w) \<and>
   (array_get (middlewares parent) k = Some (Wrapped idx (mount js s child)) \<and>
    (startsWith (path (req w)) s \<longrightarrow> getRoute child (removePathPrefix s (req w)) = Inr None) \<longrightarrow>
      call_middleware (Suc fuel) js parent k w = call_middleware fuel js parent (idx + 1) w)"
proof -
  have step: "call_middleware (Suc fuel) js parent k w = call_middleware fuel js parent (idx + 1) w"
    if "array_get (middlewares parent) k = Some (Wrapped idx (mount js s child))"
      and "startsWith (path (req w)) s \<longrightarrow> getRoute child (removePathPrefix s (req w)) = Inr None"
  proof (cases "startsWith (path (req w)) s")
    case True
    with that show ?thesis by (simp add: mount_no_match)
  next
    case False
    with that show ?thesis by (simp add: mount_no_prefix)
  qed
  show ?thesis
    using step mount_no_prefix mount_no_match by blast
qed

text \<open>
  Claim C4 says that the mount step falls through without modifying the request, in
  case (2) whenever the path starts with \<open>s\<close> and the child's route table has no match
  for the stripped path. The code does this when the child's lookup returns
  (\<open>mount_fall_through\<close>). For the method \<open>constructor\<close>, a child with
  \<open>GET /widgets\<close> mounted at \<open>/api\<close>, and the path \<open>/api/w\<close>, the child has no
  route in either bucket, yet \<^verbatim>\<open>router.getRoute(req)\<close> throws between
  \<^verbatim>\<open>removePathPrefix\<close> and \<^verbatim>\<open>addPathPrefix\<close>: the continuation is never
  called, the path is left as \<open>/w\<close>, and the promise of \<^verbatim>\<open>getResponse\<close> is
  rejected. With the method \<open>GET\<close> the same step falls through unchanged.
\<close>

theorem mount_leaves_path_stripped_for_inherited_method:
  "startsWith (path (req (new_world (request_of ''constructor'' ''/api/w'')))) ''/api'' \<and>
   bucket (build js [Get ''/widgets'' h]) ''constructor'' = [] \<and>
   bucket (build js [Get ''/widgets'' h]) ''ALL'' = [] \<and>
   mount js ''/api'' (build js [Get ''/widgets'' h])
     (new_world (request_of ''constructor'' ''/api/w'')) next =
     Some (Threw TypeError (new_world (request_of ''constructor'' ''/w''))) \<and>
   getResponse 2 js (build js [UseRouter ''/api'' (build js [Get ''/widgets'' h])])
     (request_of ''constructor'' ''/api/w'') = Some (Rejected TypeError) \<and>
   mount js ''/api'' (build js [Get ''/widgets'' h])
     (new_world (request_of ''GET'' ''/api/w'')) next =
     next (new_world (request_of ''GET'' ''/api/w''))"
  by (simp add: bucket_def getResponse_def numeral_2_eq_2 mount_def router_eval response_eval
      request_eval Object_prototype_properties_def)

text \<open>
  Claim C1 says that when the child has a route for the stripped path, the mount step
  runs the child's full dispatch: the middleware registered on the child and the child's
  own mounts, before the child's route dispatch. The code calls
  \<^verbatim>\<open>router.handleRequest\<close>, the child's route dispatch alone. A child with the
  middleware \<open>deny\<close> and the route \<open>GET /w\<close> answers \<open>GET /w\<close> with 403 when it
  is dispatched on its own; mounted at \<open>/api\<close>, it answers \<open>GET /api/w\<close> with the
  handler's 200, and \<open>deny\<close> never runs. A child with a mount at \<open>/v1\<close> and a route
  \<open>GET /v1/x\<close> of its own serves \<open>GET /v1/x\<close> through its mount when it is
  dispatched on its own; mounted at \<open>/api\<close>, it serves \<open>GET /api/v1/x\<close> from its own
  route, and its mount never runs.
\<close>

theorem mount_skips_child_middleware:
  "getRoute (guarded_child js) (removePathPrefix ''/api'' (request_of ''GET'' ''/api/w'')) =
     Inr (Some \<lparr>route_path = ''/w'', handler = send ''widgets''\<rparr>) \<and>
   getResponse 2 js (guarded_child js) (request_of ''GET'' ''/w'') =
     Some (Fulfilled \<lparr>result_statusCode = 403, result_body = ''denied'',
                      result_headers = [(''Content-Type'', ''text/html'')]\<rparr>) \<and>
   getResponse 2 js (build js [UseRouter ''/api'' (guarded_child js)])
       (request_of ''GET'' ''/api/w'') =
     Some (Fulfilled \<lparr>result_statusCode = 200, result_body = ''widgets'',
                      result_headers = [(''Content-Type'', ''text/html'')]\<rparr>) \<and>
   getRoute (nested_child js) (removePathPrefix ''/api'' (request_of ''GET'' ''/api/v1/x'')) =
     Inr (Some \<lparr>route_path = ''/v1/x'', handler = send ''own''\<rparr>) \<and>
   getResponse 2 js (nested_child js) (request_of ''GET'' ''/v1/x'') =
     Some (Fulfilled \<lparr>result_statusCode = 200, result_body = ''nested'',
                      result_headers = [(''Content-Type'', ''text/html'')]\<rparr>) \<and>
   getResponse 2 js (build js [UseRouter ''/api'' (nested_child js)])
       (request_of ''GET'' ''/api/v1/x'') =
     Some (Fulfilled \<lparr>result_statusCode = 200, result_body = ''own'',
                      result_headers = [(''Content-Type'', ''text/html'')]\<rparr>)"
  by (simp add: guarded_child_def nested_child_def getResponse_def numeral_2_eq_2 mount_def
      deny_def router_eval response_eval request_eval Object_prototype_properties_def)

section \<open>The middleware chain\<close>

text \<open>
  Claim C5: on a router built by any sequence of \<^verbatim>\<open>use(fn)\<close>,
  \<^verbatim>\<open>use(prefix, router)\<close> and route registrations, the middleware array is the
  registered middleware in registration order, each with its own position as
  \<^verbatim>\<open>idx\<close>, followed by the dispatch terminator as last element. A further
  \<^verbatim>\<open>use\<close> inserts its step immediately before the terminator. Dispatch from the
  first element runs the registered middleware in registration order, each with the
  rest of the chain as its continuation, and route dispatch at the end: a step, and
  route dispatch, runs only through the continuation of the step before it. Fuel above
  the number of registered middleware is enough.
\<close>

theorem middleware_chain_invariant:
  "middlewares (build js cs) = wrapped_chain (registered_middlewares js cs) \<and>
   last (middlewares (build js cs)) = Terminator \<and>
   middlewares (use m (build js cs)) =
     butlast (middlewares (build js cs)) @
       [Wrapped (int (length (middlewares (build js cs))) - 1) m, Terminator] \<and>
   middlewares (useRouter js s child (build js cs)) =
     butlast (middlewares (build js cs)) @
       [Wrapped (int (length (middlewares (build js cs))) - 1) (mount js s child), Terminator] \<and>
   (length (registered_middlewares js cs) < fuel \<longrightarrow>
      call_middleware fuel js (build js cs) 0 w =
        chain (registered_middlewares js cs)
          (\<lambda>w'. Some (Returned (unawaited (handleRequest js (build js cs) w')))) w)"
proof -
  let ?r = "build js cs" and ?ms = "registered_middlewares js cs"
  have inv: "middlewares ?r = wrapped_chain ?ms"
    by (rule middlewares_build)
  have la: "last (middlewares ?r) = Terminator"
    by (simp add: inv wrapped_chain_def)
  have ins: "middlewares (use m' ?r) =
      butlast (middlewares ?r) @ [Wrapped (int (length (middlewares ?r)) - 1) m', Terminator]" for m'
    using use_wrapped_chain [OF inv, of m']
    by (simp add: inv wrapped_chain_snoc length_wrapped_chain)
  have run: "call_middleware fuel js ?r 0 w =
      chain ?ms (\<lambda>w'. Some (Returned (unawaited (handleRequest js ?r w')))) w"
    if "length ?ms < fuel"
    using call_middleware_chain [OF inv, of 0 fuel js w] that by simp
  show ?thesis
    using inv la ins [of m] ins [of "mount js s child"] run
    by (simp add: useRouter_def)
qed

text \<open>
  Witness for C5: \<open>mark ''1''\<close> and \<open>mark ''2''\<close>, registered in this order around a
  route registration, run in this order before the handler of \<open>GET /a\<close>, which
  finishes the response with the body \<open>12\<close>. With \<open>halt\<close> registered between them,
  neither \<open>mark ''2''\<close> nor the handler runs, and the promise stays pending.
\<close>

theorem middleware_chain_invariant_witness:
  "length (registered_middlewares reference_platform
             [Use (mark ''1''), Get ''/a'' finish, Use (mark ''2'')]) < 3 \<and>
   middlewares (build reference_platform [Use (mark ''1''), Get ''/a'' finish, Use (mark ''2'')]) =
     [Wrapped 0 (mark ''1''), Wrapped 1 (mark ''2''), Terminator] \<and>
   getResponse 3 reference_platform
     (build reference_platform [Use (mark ''1''), Get ''/a'' finish, Use (mark ''2'')])
     (request_of ''GET'' ''/a'') =
     Some (Fulfilled \<lparr>result_statusCode = 200, result_body = ''12'',
                      result_headers = [(''Content-Type'', ''text/html'')]\<rparr>) \<and>
   getResponse 4 reference_platform
     (build reference_platform
        [Use (mark ''1''), Use halt, Get ''/a'' finish, Use (mark ''2'')])
     (request_of ''GET'' ''/a'') = Some Pending"
proof -
  let ?cs = "[Use (mark ''1''), Get ''/a'' finish, Use (mark ''2'')]"
  let ?hs = "[Use (mark ''1''), Use halt, Get ''/a'' finish, Use (mark ''2'')]"
  let ?w = "new_world (request_of ''GET'' ''/a'')"
  have ms: "registered_middlewares reference_platform ?cs = [mark ''1'', mark ''2'']"
    by (simp add: registered_middlewares_def List.map_filter_def)
  have hs: "registered_middlewares reference_platform ?hs = [mark ''1'', halt, mark ''2'']"
    by (simp add: registered_middlewares_def List.map_filter_def)
  have h: "handleRequest reference_platform (build reference_platform ?cs) w =
      Returned (finish w)"
    if "path (req w) = ''/a''" "method (req w) = ''GET''" for w
    using that by (simp add: router_eval Object_prototype_properties_def)
  have c: "chain [mark ''1'', mark ''2'']
             (\<lambda>w'. Some (Returned (unawaited (handleRequest reference_platform
                                       (build reference_platform ?cs) w')))) ?w =
           Some (Returned (finish (?w\<lparr>res := (res ?w)\<lparr>body := ''12''\<rparr>\<rparr>)))"
    by (simp add: mark_def h new_world_def request_of_def new_Response_def)
  have d: "chain [mark ''1'', halt, mark ''2''] k ?w =
           Some (Returned (?w\<lparr>res := (res ?w)\<lparr>body := ''1''\<rparr>\<rparr>))" for k
    by (simp add: mark_def halt_def new_world_def new_Response_def)
  note inv = middleware_chain_invariant
    [of reference_platform ?cs "mark ''0''" "''/''" new_Router 3 ?w]
  note inv_halt = middleware_chain_invariant
    [of reference_platform ?hs "mark ''0''" "''/''" new_Router 4 ?w]
  from inv have arr: "middlewares (build reference_platform ?cs) =
      [Wrapped 0 (mark ''1''), Wrapped 1 (mark ''2''), Terminator]"
    by (simp add: ms wrapped_chain_def)
  from inv have run: "call_middleware 3 reference_platform (build reference_platform ?cs) 0 ?w =
      Some (Returned (finish (?w\<lparr>res := (res ?w)\<lparr>body := ''12''\<rparr>\<rparr>)))"
    by (simp only: ms c) simp
  from inv_halt have stop:
    "call_middleware 4 reference_platform (build reference_platform ?hs) 0 ?w =
      Some (Returned (?w\<lparr>res := (res ?w)\<lparr>body := ''1''\<rparr>\<rparr>))"
    by (simp only: hs d) simp
  show ?thesis
    using arr run stop by (simp add: ms getResponse_def response_eval)
qed

section \<open>Platform adapter\<close>

text \<open>
  Claim C8: the text of an event's body is the body decoded from base64 when the event
  declares it base64-encoded, and the body itself otherwise. The body of the request is
  the value that \<^verbatim>\<open>JSON.parse\<close> returns for the text when it succeeds, and the
  text itself, unchanged, when it throws: the failure is swallowed. For a
  \<^verbatim>\<open>null\<close> body the empty string is parsed, and \<^verbatim>\<open>null\<close> is what a failure
  keeps. The code skips the decoding of an empty body, which is the same as decoding it,
  since the empty string decodes to the empty string.
\<close>

theorem parseRequest_body:
  assumes "base64_to_utf8 js [] = []"
  shows "req_body (parseRequest js ev ctx) =
           (case ev_body ev of
              None \<Rightarrow> (case JSON_parse js [] of Some v \<Rightarrow> v | None \<Rightarrow> Null)
            | Some b \<Rightarrow>
                (let text = (if isBase64Encoded ev then base64_to_utf8 js b else b)
                 in case JSON_parse js text of Some v \<Rightarrow> v | None \<Rightarrow> Str text))"
  using assms by (auto simp: parseRequest_def Let_def split: option.splits)

text \<open>
  Witness for C8: the base64 text of \<^verbatim>\<open>{"a":1}\<close> gives the object with
  \<open>a = 1\<close>; the base64 text of \<^verbatim>\<open>hello\<close> gives the string \<^verbatim>\<open>hello\<close>; so do
  the two texts when they are not encoded.
\<close>

theorem parseRequest_body_witness:
  \<open>req_body (parseRequest reference_platform (event_of (Some ''eyJhIjoxfQ=='') True) []) =
     Obj [(''a'', Num 1)] \<and>
   req_body (parseRequest reference_platform (event_of (Some ''aGVsbG8='') True) []) =
     Str ''hello'' \<and>
   req_body (parseRequest reference_platform (event_of (Some ''{"a":1}'') False) []) =
     Obj [(''a'', Num 1)] \<and>
   req_body (parseRequest reference_platform (event_of (Some ''hello'') False) []) =
     Str ''hello''\<close>
proof -
  have d: "base64_to_utf8 reference_platform [] = []"
    by (simp add: reference_platform_def ref_base64_examples)
  have p: "JSON_parse reference_platform = parse_json"
    "base64_to_utf8 reference_platform = base64_decode"
    by (simp_all add: reference_platform_def)
  show ?thesis
    using parseRequest_body [OF d, of "event_of (Some ''eyJhIjoxfQ=='') True" "[]"]
      parseRequest_body [OF d, of "event_of (Some ''aGVsbG8='') True" "[]"]
      parseRequest_body [OF d, of \<open>event_of (Some ''{"a":1}'') False\<close> "[]"]
      parseRequest_body [OF d, of "event_of (Some ''hello'') False" "[]"]
    by (simp add: event_of_def p ref_parse_examples ref_base64_examples)
qed

text \<open>
  Claim C10: for an event whose body is \<^verbatim>\<open>null\<close>, whatever its
  \<open>isBase64Encoded\<close> flag, the body of the request is \<^verbatim>\<open>null\<close>: nothing is
  decoded, \<^verbatim>\<open>JSON.parse\<close> is tried on the empty string and throws, and the
  \<^verbatim>\<open>null\<close> is kept.
\<close>

theorem null_body_stays_null:
  assumes "ev_body ev = None" and "JSON_parse js [] = None"
  shows "req_body (parseRequest js ev ctx) = Null"
  using assms by (simp add: parseRequest_def)

text \<open>Witness for C10: a \<^verbatim>\<open>null\<close> body with the flag set and with the flag unset.\<close>

theorem null_body_stays_null_witness:
  "req_body (parseRequest reference_platform (event_of None True) []) = Null \<and>
   req_body (parseRequest reference_platform (event_of None False) []) = Null"
proof -
  have p: "JSON_parse reference_platform [] = None"
    by (simp add: reference_platform_def ref_parse_examples)
  show ?thesis
    using null_body_stays_null [OF _ p, of "event_of None True" "[]"]
      null_body_stays_null [OF _ p, of "event_of None False" "[]"]
    by (simp add: event_of_def)
qed

end
